theory Spec2Isabelle
  imports Complex_Main
begin

section \<open>Python values and exceptions\<close>

text \<open>
  The exceptions that the modelled code can raise or catch. \<open>RequestException\<close> is the
  failure of an HTTP call made through \<open>requests\<close> (including \<open>raise_for_status\<close>),
  \<open>ApiError\<close> the failure of a Google Maps call.
\<close>

datatype error =
    KeyError | TypeError | IndexError | AttributeError | ValueError | ZeroDivisionError
  | StravaAPIError | RequestException | ApiError

text \<open>
  A Python float in the fixed-notation range of \<open>repr\<close> is identified by the shortest
  decimal that reads back as that float, which is what \<open>str\<close>, \<open>repr\<close> and an f-string
  print: a sign, the integer part and the digits after the point (none for a whole
  number, which prints with \<open>.0\<close>).
\<close>

datatype pyfloat = PyFloat (negative: bool) (whole: nat) (frac: string)

text \<open>
  Decoded JSON, as \<open>response.json()\<close> and \<open>request.get_json()\<close> return it. An object is
  an association list with string keys, looked up with \<open>map_of\<close>.
\<close>

datatype pyval =
    PNone
  | PBool bool
  | PInt int
  | PFloat pyfloat
  | PStr string
  | PList "pyval list"
  | PDict "(string \<times> pyval) list"

text \<open>Python truthiness, as used by \<open>if x\<close> and \<open>not x\<close>.\<close>

fun truthy :: "pyval \<Rightarrow> bool" where
  "truthy PNone = False"
| "truthy (PBool b) = b"
| "truthy (PInt i) = (i \<noteq> 0)"
| "truthy (PFloat f) = (whole f \<noteq> 0 \<or> frac f \<noteq> [])"
| "truthy (PStr s) = (s \<noteq> [])"
| "truthy (PList xs) = (xs \<noteq> [])"
| "truthy (PDict kvs) = (kvs \<noteq> [])"

text \<open>Sequencing of computations that may raise.\<close>

definition bind_err :: "error + 'a \<Rightarrow> ('a \<Rightarrow> error + 'b) \<Rightarrow> error + 'b" where
  "bind_err m k = (case m of Inl e \<Rightarrow> Inl e | Inr v \<Rightarrow> k v)"

text \<open>\<open>d.get(key, default)\<close>: an attribute of dicts only.\<close>

fun py_get :: "pyval \<Rightarrow> string \<Rightarrow> pyval \<Rightarrow> error + pyval" where
  "py_get (PDict kvs) k dflt = Inr (case map_of kvs k of None \<Rightarrow> dflt | Some v \<Rightarrow> v)"
| "py_get _ k dflt = Inl AttributeError"

text \<open>\<open>d[key]\<close> with a string key.\<close>

fun py_getitem :: "pyval \<Rightarrow> string \<Rightarrow> error + pyval" where
  "py_getitem (PDict kvs) k = (case map_of kvs k of None \<Rightarrow> Inl KeyError | Some v \<Rightarrow> Inr v)"
| "py_getitem _ k = Inl TypeError"

text \<open>
  \<open>x[i]\<close> with a literal index \<open>0\<close> or \<open>1\<close>. A JSON object has string keys only, so an
  integer key is never found.
\<close>

fun py_index :: "pyval \<Rightarrow> nat \<Rightarrow> error + pyval" where
  "py_index (PList xs) i = (if i < length xs then Inr (xs ! i) else Inl IndexError)"
| "py_index (PStr s) i = (if i < length s then Inr (PStr [s ! i]) else Inl IndexError)"
| "py_index (PDict kvs) i = Inl KeyError"
| "py_index _ i = Inl TypeError"

text \<open>The elements a \<open>for\<close> loop or a comprehension visits.\<close>

fun py_iter :: "pyval \<Rightarrow> error + pyval list" where
  "py_iter (PList xs) = Inr xs"
| "py_iter (PStr s) = Inr (map (\<lambda>c. PStr [c]) s)"
| "py_iter (PDict kvs) = Inr (map (\<lambda>kv. PStr (fst kv)) kvs)"
| "py_iter _ = Inl TypeError"

section \<open>Configuration (config.py)\<close>

record config =
  POI_SEARCH_RADIUS :: int
  POI_ROUTE_SAMPLING_DISTANCE :: int

section \<open>Strategy B: route sampling (poi\_service.py)\<close>

definition POI_TYPES :: "string list" where
  "POI_TYPES = [''cafe'', ''restaurant'', ''bar'', ''tourist_attraction'',
                ''museum'', ''park'', ''art_gallery'', ''viewpoint'']"

text \<open>Python's \<open>a // b\<close> on integers: floor division, raising on a zero divisor.\<close>

definition floordiv :: "int \<Rightarrow> int \<Rightarrow> error + int" where
  "floordiv a b = (if b = 0 then Inl ZeroDivisionError else Inr (a div b))"

text \<open>The extended slice \<open>xs[::step]\<close> for a positive step.\<close>

definition slice_step :: "'a list \<Rightarrow> int \<Rightarrow> 'a list" where
  "slice_step xs step = map (\<lambda>i. xs ! i) (filter (\<lambda>i. int i mod step = 0) [0..<length xs])"

text \<open>
  \<open>_sample_route_points\<close>. The caller builds every element of \<open>route_coords\<close> as a
  two-element list \<open>[lng, lat]\<close>, modelled as a pair, so the unpacking \<open>for lng, lat in\<close>
  cannot fail.
\<close>

definition sample_route_points ::
  "('c \<times> 'c) list \<Rightarrow> int \<Rightarrow> error + ('c \<times> 'c) list" where
  "sample_route_points route_coords sample_distance =
     (if length route_coords \<le> 2 then Inr (map (\<lambda>(lng, lat). (lat, lng)) route_coords)
      else
        bind_err (floordiv (int (length route_coords) * 100) sample_distance) (\<lambda>d.
        bind_err (floordiv (int (length route_coords)) d) (\<lambda>q.
          let step = max 1 q
          in Inr (map (\<lambda>(lng, lat). (lat, lng)) (slice_step route_coords step)))))"

section \<open>Strategy B: proximity search with deduplication (poi\_service.py)\<close>

text \<open>String helpers: \<open>sep.join(xs)\<close>, \<open>s.replace(a, b)\<close> on single characters and
  \<open>s.title()\<close> on ASCII text.\<close>

fun join :: "string \<Rightarrow> string list \<Rightarrow> string" where
  "join sep [] = []"
| "join sep [x] = x"
| "join sep (x # y # ys) = x @ sep @ join sep (y # ys)"

definition replace_char :: "char \<Rightarrow> char \<Rightarrow> string \<Rightarrow> string" where
  "replace_char a b s = map (\<lambda>c. if c = a then b else c) s"

definition lowers :: string where
  "lowers = ''abcdefghijklmnopqrstuvwxyz''"

definition uppers :: string where
  "uppers = ''ABCDEFGHIJKLMNOPQRSTUVWXYZ''"

definition to_upper :: "char \<Rightarrow> char" where
  "to_upper c = (case map_of (zip lowers uppers) c of Some u \<Rightarrow> u | None \<Rightarrow> c)"

definition to_lower :: "char \<Rightarrow> char" where
  "to_lower c = (case map_of (zip uppers lowers) c of Some l \<Rightarrow> l | None \<Rightarrow> c)"

definition is_cased :: "char \<Rightarrow> bool" where
  "is_cased c = (c \<in> set lowers \<or> c \<in> set uppers)"

text \<open>\<open>title_from prev s\<close>: \<open>prev\<close> tells whether the previous character was a letter.\<close>

fun title_from :: "bool \<Rightarrow> string \<Rightarrow> string" where
  "title_from prev [] = []"
| "title_from prev (c # cs) =
     (if is_cased c then (if prev then to_lower c else to_upper c) # title_from True cs
      else c # title_from False cs)"

definition title :: "string \<Rightarrow> string" where
  "title s = title_from False s"

text \<open>
  The \<open>googlemaps\<close> client is external: \<open>places_nearby(location, radius, type)\<close> either
  raises or returns the decoded response. It is a parameter of the model.
\<close>

type_synonym location = "pyval \<times> pyval"
type_synonym places_nearby = "location \<Rightarrow> int \<Rightarrow> string \<Rightarrow> error + pyval"

text \<open>
  \<open>found_pois\<close>: a dict in insertion order, as an association list from place id to POI
  record. Keys are compared structurally (the provider's place ids are strings; Python's
  identification of \<open>1\<close>, \<open>1.0\<close> and \<open>True\<close> as keys is not modelled). Lists and dicts
  are unhashable.
\<close>

type_synonym found_pois = "(pyval \<times> pyval) list"

fun hashable :: "pyval \<Rightarrow> bool" where
  "hashable (PList xs) = False"
| "hashable (PDict kvs) = False"
| "hashable _ = True"

text \<open>\<open>next((t for t in poi_types if t in POI_TYPES), "point_of_interest")\<close>\<close>

definition poi_type_of :: "pyval list \<Rightarrow> string" where
  "poi_type_of poi_types =
     (case List.map_filter
             (\<lambda>t. case t of PStr s \<Rightarrow> if s \<in> set POI_TYPES then Some s else None | _ \<Rightarrow> None)
             poi_types
      of [] \<Rightarrow> ''point_of_interest'' | s # _ \<Rightarrow> s)"

text \<open>The record stored for a place that is not yet in \<open>found_pois\<close>.\<close>

definition build_poi :: "pyval \<Rightarrow> error + pyval" where
  "build_poi poi =
     bind_err (py_get poi ''types'' (PList [])) (\<lambda>poi_types.
     bind_err (py_iter poi_types) (\<lambda>ts.
     bind_err (py_get poi ''name'' (PStr ''Unknown'')) (\<lambda>name.
     bind_err (py_getitem poi ''geometry'') (\<lambda>g1.
     bind_err (py_getitem g1 ''location'') (\<lambda>l1.
     bind_err (py_getitem l1 ''lat'') (\<lambda>lat.
     bind_err (py_getitem poi ''geometry'') (\<lambda>g2.
     bind_err (py_getitem g2 ''location'') (\<lambda>l2.
     bind_err (py_getitem l2 ''lng'') (\<lambda>lng.
     bind_err (py_get poi ''rating'' PNone) (\<lambda>rating.
     bind_err (py_get poi ''price_level'' PNone) (\<lambda>price_level.
       Inr (PDict [(''name'', name),
                   (''type'', PStr (title (replace_char (CHR ''_'') (CHR '' '') (poi_type_of ts)))),
                   (''coords'', PList [lat, lng]),
                   (''rating'', rating),
                   (''price_level'', price_level)]))))))))))))"

text \<open>One iteration of the inner loop \<open>for poi in results\<close>.\<close>

definition add_poi :: "found_pois \<Rightarrow> pyval \<Rightarrow> error + found_pois" where
  "add_poi found poi =
     bind_err (py_getitem poi ''place_id'') (\<lambda>place_id.
       if \<not> hashable place_id then Inl TypeError
       else if place_id \<in> set (map fst found) then Inr found
       else bind_err (build_poi poi) (\<lambda>r. Inr (found @ [(place_id, r)])))"

text \<open>The inner loop \<open>for poi in results\<close>. An exception leaves it.\<close>

fun process_results :: "found_pois \<Rightarrow> pyval list \<Rightarrow> error + found_pois" where
  "process_results found [] = Inr found"
| "process_results found (poi # rest) =
     bind_err (add_poi found poi) (\<lambda>found'. process_results found' rest)"

text \<open>The results that the search at one sample point yields for the inner loop.\<close>

definition results_at :: "places_nearby \<Rightarrow> config \<Rightarrow> location \<Rightarrow> error + pyval list" where
  "results_at gm cfg loc =
     bind_err (gm loc (POI_SEARCH_RADIUS cfg) (join ''|'' POI_TYPES)) (\<lambda>resp.
     bind_err (py_get resp ''results'' (PList [])) py_iter)"

text \<open>
  The \<open>try\<close> statement for one sample point. Its first handler is
  \<open>except googlemaps.ApiError\<close>. The package \<open>googlemaps\<close> exports \<open>Client\<close> and
  \<open>exceptions\<close> only (the class is \<open>googlemaps.exceptions.ApiError\<close>), so when an exception
  of the body reaches the handlers, evaluating that header raises \<open>AttributeError\<close>: the
  handler \<open>except Exception\<close> below it is not consulted, nothing is logged, and
  \<open>AttributeError\<close> leaves the loop and \<open>get_pois_for_route\<close>.
\<close>

definition search_at ::
  "places_nearby \<Rightarrow> config \<Rightarrow> found_pois \<Rightarrow> location \<Rightarrow> error + found_pois" where
  "search_at gm cfg found loc =
     (case bind_err (results_at gm cfg loc) (process_results found) of
        Inl e \<Rightarrow> Inl AttributeError
      | Inr found' \<Rightarrow> Inr found')"

text \<open>
  The outer loop, with the list of locations for which a search call was issued so far.
\<close>

fun search_points ::
  "places_nearby \<Rightarrow> config \<Rightarrow> found_pois \<Rightarrow> location list \<Rightarrow> location list
   \<Rightarrow> (error + found_pois) \<times> location list" where
  "search_points gm cfg found calls [] = (Inr found, calls)"
| "search_points gm cfg found calls (loc # pts) =
     (case search_at gm cfg found loc of
        Inl e \<Rightarrow> (Inl e, calls @ [loc])
      | Inr found' \<Rightarrow> search_points gm cfg found' (calls @ [loc]) pts)"

text \<open>
  \<open>get_pois_for_route\<close>: the result, or the exception that escapes, together with the
  locations for which a search call was issued. \<open>gmaps\<close> is \<open>None\<close> without an API key.
\<close>

definition get_pois_for_route ::
  "places_nearby option \<Rightarrow> config \<Rightarrow> (pyval \<times> pyval) list
   \<Rightarrow> (error + pyval list) \<times> location list" where
  "get_pois_for_route gmaps cfg route_coords =
     (if route_coords = [] then (Inr [], [])
      else case gmaps of
        None \<Rightarrow> (Inr [], [])
      | Some gm \<Rightarrow>
          (case sample_route_points route_coords (POI_ROUTE_SAMPLING_DISTANCE cfg) of
             Inl e \<Rightarrow> (Inl e, [])
           | Inr sample_points \<Rightarrow>
               (case search_points gm cfg [] [] sample_points of
                  (Inl e, calls) \<Rightarrow> (Inl e, calls)
                | (Inr found, calls) \<Rightarrow> (Inr (map snd found), calls))))"

section \<open>HTTP layer: POST /api/pois (app.py)\<close>

record response =
  status :: nat
  body :: pyval

definition jsonify :: "nat \<Rightarrow> pyval \<Rightarrow> response" where
  "jsonify code v = \<lparr>status = code, body = v\<rparr>"

definition json_error :: "nat \<Rightarrow> string \<Rightarrow> response" where
  "json_error code msg = jsonify code (PDict [(''error'', PStr msg)])"

fun starts_with :: "string \<Rightarrow> string \<Rightarrow> bool" where
  "starts_with [] t = True"
| "starts_with (c # cs) [] = False"
| "starts_with (c # cs) (d # ds) = (c = d \<and> starts_with cs ds)"

fun substring :: "string \<Rightarrow> string \<Rightarrow> bool" where
  "substring s [] = (s = [])"
| "substring s (c # cs) = (starts_with s (c # cs) \<or> substring s cs)"

text \<open>\<open>key in x\<close> for a string \<open>key\<close>.\<close>

fun py_contains :: "pyval \<Rightarrow> string \<Rightarrow> error + bool" where
  "py_contains (PDict kvs) k = Inr (k \<in> set (map fst kvs))"
| "py_contains (PList xs) k = Inr (PStr k \<in> set xs)"
| "py_contains (PStr s) k = Inr (substring k s)"
| "py_contains _ k = Inl TypeError"

text \<open>\<open>[[coord[1], coord[0]] for coord in route]\<close>\<close>

fun swap_coords :: "pyval list \<Rightarrow> error + (pyval \<times> pyval) list" where
  "swap_coords [] = Inr []"
| "swap_coords (coord # rest) =
     bind_err (py_index coord 1) (\<lambda>c1.
     bind_err (py_index coord 0) (\<lambda>c0.
     bind_err (swap_coords rest) (\<lambda>cs. Inr ((c1, c0) # cs))))"

text \<open>
  \<open>get_nearby_pois\<close> of app.py, on the decoded request body. The first component is the
  response, or the exception that escapes the handler (which the framework answers with a
  500 page); the second lists the search calls issued.
\<close>

definition get_nearby_pois ::
  "places_nearby option \<Rightarrow> config \<Rightarrow> pyval \<Rightarrow> (error + response) \<times> location list" where
  "get_nearby_pois gmaps cfg data =
     (if \<not> truthy data then (Inr (json_error 400 ''Route data is required''), [])
      else case py_contains data ''route'' of
        Inl e \<Rightarrow> (Inl e, [])
      | Inr False \<Rightarrow> (Inr (json_error 400 ''Route data is required''), [])
      | Inr True \<Rightarrow>
          (case py_getitem data ''route'' of
             Inl e \<Rightarrow> (Inl e, [])
           | Inr (PList route) \<Rightarrow>
               if length route < 2
               then (Inr (json_error 400 ''Route must be a list with at least 2 coordinates''), [])
               else
                 (case swap_coords route of
                    Inl e \<Rightarrow>
                      (Inr (if e = IndexError \<or> e = TypeError
                            then json_error 400 ''Invalid route coordinate format''
                            else json_error 500 ''Failed to retrieve points of interest''), [])
                  | Inr route_coords \<Rightarrow>
                      (case get_pois_for_route gmaps cfg route_coords of
                         (Inl e, calls) \<Rightarrow>
                           (Inr (if e = IndexError \<or> e = TypeError
                                 then json_error 400 ''Invalid route coordinate format''
                                 else json_error 500 ''Failed to retrieve points of interest''),
                            calls)
                       | (Inr pois, calls) \<Rightarrow> (Inr (jsonify 200 (PList pois)), calls)))
           | Inr _ \<Rightarrow>
               (Inr (json_error 400 ''Route must be a list with at least 2 coordinates''), [])))"

section \<open>POST /api/pois in the second variant (backend/app.py, backend/poi\_service.py)\<close>

text \<open>
  Strategy A builds a line geometry and queries map features through \<open>shapely\<close> and
  \<open>osmnx\<close>. These libraries are external: everything \<open>get_pois_for_route\<close> does for a
  non-empty route is the parameter \<open>pipeline\<close>, which yields the result or the exception
  raised, and the number of feature queries sent over the network.
\<close>

type_synonym osm_pipeline = "(pyval \<times> pyval) list \<Rightarrow> (error + pyval list) \<times> nat"

definition backend_get_pois_for_route ::
  "osm_pipeline \<Rightarrow> (pyval \<times> pyval) list \<Rightarrow> (error + pyval list) \<times> nat" where
  "backend_get_pois_for_route pipeline route_coords =
     (if route_coords = [] then (Inr [], 0) else pipeline route_coords)"

definition backend_get_nearby_pois ::
  "osm_pipeline \<Rightarrow> pyval \<Rightarrow> (error + response) \<times> nat" where
  "backend_get_nearby_pois pipeline data =
     (if \<not> truthy data then (Inr (json_error 400 ''Missing route data''), 0)
      else case py_contains data ''route'' of
        Inl e \<Rightarrow> (Inl e, 0)
      | Inr False \<Rightarrow> (Inr (json_error 400 ''Missing route data''), 0)
      | Inr True \<Rightarrow>
          (case bind_err (py_getitem data ''route'') (\<lambda>route.
                bind_err (py_iter route) swap_coords) of
             Inl e \<Rightarrow> (Inl e, 0)
           | Inr route_coords \<Rightarrow>
               (case backend_get_pois_for_route pipeline route_coords of
                  (Inl e, n) \<Rightarrow>
                    (Inr (json_error 500 ''Failed to retrieve points of interest''), n)
                | (Inr pois, n) \<Rightarrow> (Inr (jsonify 200 (PList pois)), n))))"

section \<open>Token Lifecycle Manager and Activity Data Client (strava\_client.py)\<close>

text \<open>The token response of the provider, read at the three fields the code uses.\<close>

record token =
  access_token :: string
  refresh_token :: string
  expires_at :: int

text \<open>
  The provider behind \<open>requests\<close>: each call either fails (\<open>RequestException\<close>, which
  covers a non-2xx status through \<open>raise_for_status\<close>) or yields the decoded body.
\<close>

record strava_net =
  post_refresh :: "string \<Rightarrow> error + token"
  get_athlete_activities :: "string \<Rightarrow> int \<Rightarrow> int \<Rightarrow> error + pyval"
  get_streams :: "int \<Rightarrow> string \<Rightarrow> error + pyval"

text \<open>\<open>except requests.RequestException as e: raise StravaAPIError(...)\<close>\<close>

definition wrap_request_error :: "error + 'a \<Rightarrow> error + 'a" where
  "wrap_request_error r =
     (case r of Inl e \<Rightarrow> Inl (if e = RequestException then StravaAPIError else e)
              | Inr v \<Rightarrow> Inr v)"

definition refresh_access_token :: "strava_net \<Rightarrow> string \<Rightarrow> error + token" where
  "refresh_access_token net rt = wrap_request_error (post_refresh net rt)"

definition get_activities :: "strava_net \<Rightarrow> string \<Rightarrow> int \<Rightarrow> int \<Rightarrow> error + pyval" where
  "get_activities net tok page per_page =
     wrap_request_error (get_athlete_activities net tok page (min per_page 200))"

definition get_activity_stream :: "strava_net \<Rightarrow> int \<Rightarrow> string \<Rightarrow> error + pyval" where
  "get_activity_stream net activity_id tok =
     wrap_request_error
       (bind_err (get_streams net activity_id tok) (\<lambda>data.
        bind_err (py_get data ''latlng'' (PDict [])) (\<lambda>latlng.
          py_get latlng ''data'' (PList []))))"

text \<open>The client of the second variant lets every exception through unchanged.\<close>

definition backend_refresh_access_token :: "strava_net \<Rightarrow> string \<Rightarrow> error + token" where
  "backend_refresh_access_token net rt = post_refresh net rt"

section \<open>Session Gate (app.py)\<close>

text \<open>
  The session is a dict; the only key the application writes is \<open>strava_token\<close>. What a
  request does is recorded as a list of events in the order of execution: calls of the
  clients, and the dispatch to the wrapped handler.
\<close>

type_synonym session = "string \<rightharpoonup> token"

datatype client_call = ListActivities string int | ActivityStream int string

datatype event = Refresh string | Dispatch | Client client_call

type_synonym handler = "session \<Rightarrow> client_call list \<times> (error + response)"

fun is_refresh :: "event \<Rightarrow> bool" where
  "is_refresh (Refresh rt) = True"
| "is_refresh _ = False"

text \<open>The access token a client call is made with.\<close>

fun call_token :: "client_call \<Rightarrow> string" where
  "call_token (ListActivities tok per_page) = tok"
| "call_token (ActivityStream activity_id tok) = tok"

text \<open>
  \<open>auth_required(f)\<close> applied to a session at wall-clock time \<open>now\<close> (the value of
  \<open>time.time()\<close>): the session afterwards, the events, and the response or the exception
  that escapes.
\<close>

definition auth_required ::
  "strava_net \<Rightarrow> rat \<Rightarrow> handler \<Rightarrow> session \<Rightarrow> session \<times> event list \<times> (error + response)" where
  "auth_required net now f sess =
     (case sess ''strava_token'' of
        None \<Rightarrow> (sess, [], Inr (json_error 401 ''Authentication required''))
      | Some token_info \<Rightarrow>
          if of_int (expires_at token_info) < now then
            (case refresh_access_token net (refresh_token token_info) of
               Inr new_token_info \<Rightarrow>
                 (let sess' = sess(''strava_token'' \<mapsto> new_token_info)
                  in (sess',
                      Refresh (refresh_token token_info) # Dispatch # map Client (fst (f sess')),
                      snd (f sess')))
             | Inl e \<Rightarrow>
                 if e = StravaAPIError
                 then (Map.empty, [Refresh (refresh_token token_info)],
                       Inr (json_error 401 ''Authentication expired, please re-authenticate''))
                 else (sess, [Refresh (refresh_token token_info)], Inl e))
          else (sess, Dispatch # map Client (fst (f sess)), snd (f sess)))"

text \<open>The gate of the second variant: other messages, and \<open>except Exception\<close>.\<close>

definition backend_auth_required ::
  "strava_net \<Rightarrow> rat \<Rightarrow> handler \<Rightarrow> session \<Rightarrow> session \<times> event list \<times> (error + response)" where
  "backend_auth_required net now f sess =
     (case sess ''strava_token'' of
        None \<Rightarrow> (sess, [], Inr (json_error 401 ''Unauthorized''))
      | Some token_info \<Rightarrow>
          if of_int (expires_at token_info) < now then
            (case backend_refresh_access_token net (refresh_token token_info) of
               Inr new_token_info \<Rightarrow>
                 (let sess' = sess(''strava_token'' \<mapsto> new_token_info)
                  in (sess',
                      Refresh (refresh_token token_info) # Dispatch # map Client (fst (f sess')),
                      snd (f sess')))
             | Inl e \<Rightarrow>
                 (Map.empty, [Refresh (refresh_token token_info)],
                  Inr (json_error 401 ''Failed to refresh token, please re-authenticate'')))
          else (sess, Dispatch # map Client (fst (f sess)), snd (f sess)))"

text \<open>\<open>GET /auth/status\<close> at a later time \<open>now\<close>.\<close>

definition auth_status :: "rat \<Rightarrow> session \<Rightarrow> response" where
  "auth_status now sess =
     (case sess ''strava_token'' of
        Some token_info \<Rightarrow>
          if of_int (expires_at token_info) > now
          then jsonify 200 (PDict [(''authenticated'', PBool True)])
          else jsonify 200 (PDict [(''authenticated'', PBool False)])
      | None \<Rightarrow> jsonify 200 (PDict [(''authenticated'', PBool False)]))"

section \<open>Protected handlers (app.py)\<close>

text \<open>\<open>act.get("map", {}).get("summary_polyline")\<close> as a condition.\<close>

definition has_polyline :: "pyval \<Rightarrow> error + bool" where
  "has_polyline act =
     bind_err (py_get act ''map'' (PDict [])) (\<lambda>m.
     bind_err (py_get m ''summary_polyline'' PNone) (\<lambda>p. Inr (truthy p)))"

text \<open>
  The projection of one activity. \<open>round2\<close> stands for \<open>round(x, 2)\<close> on a float, whose
  arithmetic is not modelled; the second variant does not round and passes \<open>Inr\<close>.
\<close>

definition reshape :: "(pyval \<Rightarrow> error + pyval) \<Rightarrow> pyval \<Rightarrow> error + pyval" where
  "reshape round2 act =
     bind_err (py_getitem act ''id'') (\<lambda>i.
     bind_err (py_getitem act ''name'') (\<lambda>n.
     bind_err (py_getitem act ''distance'') (\<lambda>d.
     bind_err (round2 d) (\<lambda>d'.
     bind_err (py_getitem act ''type'') (\<lambda>t.
     bind_err (py_getitem act ''start_date_local'') (\<lambda>s.
       Inr (PDict [(''id'', i), (''name'', n), (''distance'', d'), (''type'', t),
                   (''start_date'', s)])))))))"

text \<open>The list comprehension \<open>[{...} for act in activities if ...]\<close>.\<close>

fun filtered_activities :: "(pyval \<Rightarrow> error + pyval) \<Rightarrow> pyval list \<Rightarrow> error + pyval list" where
  "filtered_activities round2 [] = Inr []"
| "filtered_activities round2 (act # rest) =
     bind_err (has_polyline act) (\<lambda>keep.
       if keep
       then bind_err (reshape round2 act) (\<lambda>r.
            bind_err (filtered_activities round2 rest) (\<lambda>rs. Inr (r # rs)))
       else filtered_activities round2 rest)"

text \<open>\<open>GET /api/activities\<close>: only \<open>StravaAPIError\<close> is caught.\<close>

definition get_activities_handler :: "strava_net \<Rightarrow> (pyval \<Rightarrow> error + pyval) \<Rightarrow> handler" where
  "get_activities_handler net round2 sess =
     (case sess ''strava_token'' of
        None \<Rightarrow> ([], Inl KeyError)
      | Some token_info \<Rightarrow>
          ([ListActivities (access_token token_info) 50],
           (case bind_err (get_activities net (access_token token_info) 1 50) (\<lambda>activities.
                 bind_err (py_iter activities) (filtered_activities round2)) of
              Inl e \<Rightarrow> if e = StravaAPIError
                       then Inr (json_error 500 ''Failed to fetch activities'')
                       else Inl e
            | Inr filtered \<Rightarrow> Inr (jsonify 200 (PList filtered)))))"

text \<open>\<open>GET /api/activities/<id>/stream\<close>\<close>

definition get_activity_stream_data :: "strava_net \<Rightarrow> int \<Rightarrow> handler" where
  "get_activity_stream_data net activity_id sess =
     (case sess ''strava_token'' of
        None \<Rightarrow> ([], Inl KeyError)
      | Some token_info \<Rightarrow>
          ([ActivityStream activity_id (access_token token_info)],
           (case get_activity_stream net activity_id (access_token token_info) of
              Inl e \<Rightarrow> if e = StravaAPIError
                       then Inr (json_error 500 ''Failed to fetch activity data'')
                       else Inl e
            | Inr latlng_stream \<Rightarrow>
                if \<not> truthy latlng_stream
                then Inr (json_error 404 ''No GPS data found for this activity'')
                else Inr (jsonify 200 (PDict [(''stream'', latlng_stream)])))))"

section \<open>GPX formatter (app.py)\<close>

text \<open>Decimal digits, and \<open>str\<close> of a float in fixed notation.\<close>

definition digit_char :: "nat \<Rightarrow> char" where
  "digit_char d = ''0123456789'' ! (d mod 10)"

fun show_nat :: "nat \<Rightarrow> string" where
  "show_nat n = (if n < 10 then [digit_char n] else show_nat (n div 10) @ [digit_char n])"

definition str_float :: "pyfloat \<Rightarrow> string" where
  "str_float x =
     (if negative x then ''-'' else []) @ show_nat (whole x) @ ''.''
       @ (if frac x = [] then ''0'' else frac x)"

text \<open>
  \<open>create_gpx_string\<close>. The values of the coordinates are printed by the f-string with
  \<open>format(v, '')\<close>, the parameter \<open>fmt\<close>. The loop \<open>for lat, lng in coords\<close> raises
  \<open>ValueError\<close> at an element that does not have exactly two components.
\<close>

definition trkpt :: "('a \<Rightarrow> string) \<Rightarrow> 'a \<Rightarrow> 'a \<Rightarrow> string" where
  \<open>trkpt fmt lat lng =
     ''  <trkpt lat="'' @ fmt lat @ ''" lon="'' @ fmt lng @ ''"></trkpt>\<newline>''\<close>

fun gpx_points_loop :: "('a \<Rightarrow> string) \<Rightarrow> string \<Rightarrow> 'a list list \<Rightarrow> error + string" where
  "gpx_points_loop fmt gpx_points [] = Inr gpx_points"
| "gpx_points_loop fmt gpx_points (coord # rest) =
     (case coord of
        [lat, lng] \<Rightarrow> gpx_points_loop fmt (gpx_points @ trkpt fmt lat lng) rest
      | _ \<Rightarrow> Inl ValueError)"

definition gpx_head :: "string \<Rightarrow> string" where
  \<open>gpx_head activity_name =
     ''<?xml version="1.0" encoding="UTF-8"?>\<newline>''
     @ ''<gpx version="1.1" creator="Strava Route Discovery App" xmlns="http://www.topografix.com/GPX/1/1">\<newline>''
     @ ''  <trk>\<newline>''
     @ ''    <name>'' @ activity_name @ ''</name>\<newline>''
     @ ''    <trkseg>\<newline>''\<close>

definition gpx_tail :: string where
  \<open>gpx_tail = ''\<newline>    </trkseg>\<newline>  </trk>\<newline></gpx>\<newline>''\<close>

definition create_gpx_string :: "('a \<Rightarrow> string) \<Rightarrow> string \<Rightarrow> 'a list list \<Rightarrow> error + string" where
  "create_gpx_string fmt activity_name coords =
     bind_err (gpx_points_loop fmt [] coords) (\<lambda>gpx_points.
       Inr (gpx_head activity_name @ gpx_points @ gpx_tail))"

section \<open>GET /api/activities/<id>/gpx (app.py)\<close>

text \<open>\<open>str\<close> of an integer, for \<open>f"Activity {activity_id}"\<close>.\<close>

definition show_int :: "int \<Rightarrow> string" where
  "show_int i = (if i < 0 then ''-'' else []) @ show_nat (nat (abs i))"

text \<open>
  The unpacking \<open>for lat, lng in coords\<close> on decoded JSON: each element is iterated
  (\<open>TypeError\<close> when it cannot be) and must yield exactly two values (\<open>ValueError\<close>
  otherwise). The first element that fails decides the exception.
\<close>

fun unpack_pairs :: "pyval list \<Rightarrow> error + pyval list list" where
  "unpack_pairs [] = Inr []"
| "unpack_pairs (coord # rest) =
     bind_err (py_iter coord) (\<lambda>parts.
       if length parts \<noteq> 2 then Inl ValueError
       else bind_err (unpack_pairs rest) (\<lambda>cs. Inr (parts # cs)))"

text \<open>
  \<open>get_activity_gpx\<close>. \<open>fmt\<close> is \<open>format(v, '')\<close> on a decoded JSON value, as in
  \<open>create_gpx_string\<close>. Only \<open>StravaAPIError\<close> is caught.
\<close>

definition get_activity_gpx :: "strava_net \<Rightarrow> (pyval \<Rightarrow> string) \<Rightarrow> int \<Rightarrow> handler" where
  "get_activity_gpx net fmt activity_id sess =
     (case sess ''strava_token'' of
        None \<Rightarrow> ([], Inl KeyError)
      | Some token_info \<Rightarrow>
          ([ActivityStream activity_id (access_token token_info)],
           (case get_activity_stream net activity_id (access_token token_info) of
              Inl e \<Rightarrow> if e = StravaAPIError
                       then Inr (json_error 500 ''Failed to fetch activity data'')
                       else Inl e
            | Inr latlng_stream \<Rightarrow>
                if \<not> truthy latlng_stream
                then Inr (json_error 404 ''No GPS data found for this activity'')
                else
                  (case bind_err (py_iter latlng_stream) (\<lambda>coords.
                        bind_err (unpack_pairs coords)
                          (create_gpx_string fmt (''Activity '' @ show_int activity_id))) of
                     Inl e \<Rightarrow> if e = StravaAPIError
                              then Inr (json_error 500 ''Failed to fetch activity data'')
                              else Inl e
                   | Inr gpx_data \<Rightarrow> Inr (jsonify 200 (PDict [(''gpx'', PStr gpx_data)]))))))"

section \<open>Notions used in the statements\<close>

text \<open>
  The condition of the comprehension, read off a decoded activity: the activity has a
  \<open>map\<close> object that has a \<open>summary_polyline\<close> whose value is truthy.
\<close>

definition nonempty_polyline :: "pyval \<Rightarrow> bool" where
  "nonempty_polyline act =
     (case act of
        PDict kvs \<Rightarrow>
          (case map_of kvs ''map'' of
             Some (PDict m) \<Rightarrow>
               (case map_of m ''summary_polyline'' of Some p \<Rightarrow> truthy p | None \<Rightarrow> False)
           | _ \<Rightarrow> False)
      | _ \<Rightarrow> False)"

text \<open>
  The results that the inner loop is given over a whole resolution, in iteration order:
  those of the first sample point, then those of the second, and so on.
\<close>

definition visited_results :: "places_nearby \<Rightarrow> config \<Rightarrow> location list \<Rightarrow> pyval list" where
  "visited_results gm cfg pts =
     concat (map (\<lambda>loc. case results_at gm cfg loc of Inl e \<Rightarrow> [] | Inr rs \<Rightarrow> rs) pts)"

text \<open>The number of positions of a text at which a pattern starts.\<close>

fun count_occurrences :: "string \<Rightarrow> string \<Rightarrow> nat" where
  "count_occurrences p [] = 0"
| "count_occurrences p (c # cs) =
     (if starts_with p (c # cs) then 1 else 0) + count_occurrences p cs"

section \<open>Example data\<close>

definition default_config :: config where
  "default_config = \<lparr>POI_SEARCH_RADIUS = 100, POI_ROUTE_SAMPLING_DISTANCE = 500\<rparr>"

text \<open>Two search results for the same place, as two overlapping circles may return it.\<close>

definition cafe_place :: pyval where
  "cafe_place = PDict
     [(''place_id'', PStr ''ChIJ-cafe''),
      (''name'', PStr ''Corner Cafe''),
      (''types'', PList [PStr ''food'', PStr ''art_gallery'', PStr ''cafe'']),
      (''geometry'', PDict [(''location'',
          PDict [(''lat'', PFloat (PyFloat False 45 ''05'')),
                 (''lng'', PFloat (PyFloat True 122 ''05''))])]),
      (''rating'', PFloat (PyFloat False 4 ''5''))]"

definition cafe_place_renamed :: pyval where
  "cafe_place_renamed = PDict
     [(''place_id'', PStr ''ChIJ-cafe''),
      (''name'', PStr ''Cafe at the Corner''),
      (''types'', PList [PStr ''restaurant'']),
      (''geometry'', PDict [(''location'',
          PDict [(''lat'', PFloat (PyFloat False 45 ''06'')),
                 (''lng'', PFloat (PyFloat True 122 ''06''))])]),
      (''price_level'', PInt 2)]"

definition cafe_record :: pyval where
  "cafe_record = PDict
     [(''name'', PStr ''Corner Cafe''),
      (''type'', PStr ''Art Gallery''),
      (''coords'', PList [PFloat (PyFloat False 45 ''05''), PFloat (PyFloat True 122 ''05'')]),
      (''rating'', PFloat (PyFloat False 4 ''5'')),
      (''price_level'', PNone)]"

definition two_point_route :: "(pyval \<times> pyval) list" where
  "two_point_route =
     [(PFloat (PyFloat True 122 ''''), PFloat (PyFloat False 45 '''')),
      (PFloat (PyFloat True 122 ''1''), PFloat (PyFloat False 45 ''1''))]"

definition three_point_route :: "(pyval \<times> pyval) list" where
  "three_point_route =
     [(PFloat (PyFloat True 122 ''''), PFloat (PyFloat False 45 '''')),
      (PFloat (PyFloat True 122 ''1''), PFloat (PyFloat False 45 ''1'')),
      (PFloat (PyFloat True 122 ''2''), PFloat (PyFloat False 45 ''2''))]"

definition two_sample_points :: "location list" where
  "two_sample_points =
     [(PFloat (PyFloat False 45 ''''), PFloat (PyFloat True 122 '''')),
      (PFloat (PyFloat False 45 ''1''), PFloat (PyFloat True 122 ''1''))]"

definition overlapping_search :: places_nearby where
  "overlapping_search loc radius types =
     (if loc = (PFloat (PyFloat False 45 ''''), PFloat (PyFloat True 122 ''''))
      then Inr (PDict [(''results'', PList [cafe_place])])
      else Inr (PDict [(''results'', PList [cafe_place_renamed, cafe_place])]))"

text \<open>Tokens, sessions and a provider whose answer to the refresh of \<open>refresh-1\<close> is given.\<close>

definition expired_token :: token where
  "expired_token =
     \<lparr>access_token = ''access-old'', refresh_token = ''refresh-1'', expires_at = 1000\<rparr>"

definition fresh_token :: token where
  "fresh_token =
     \<lparr>access_token = ''access-new'', refresh_token = ''refresh-2'', expires_at = 9000\<rparr>"

definition stale_token :: token where
  "stale_token =
     \<lparr>access_token = ''access-stale'', refresh_token = ''refresh-3'', expires_at = 1500\<rparr>"

definition provider :: "(error + token) \<Rightarrow> strava_net" where
  "provider refreshed =
     \<lparr>post_refresh = (\<lambda>rt. if rt = ''refresh-1'' then refreshed else Inl RequestException),
      get_athlete_activities = (\<lambda>tok page per_page. Inr (PList [])),
      get_streams = (\<lambda>activity_id tok.
         if activity_id = 7 then Inr (PDict []) else Inl RequestException)\<rparr>"

definition session_with :: "token \<Rightarrow> session" where
  "session_with t = [''strava_token'' \<mapsto> t]"

text \<open>An activity as the provider lists it, with a given \<open>map\<close> object, and its projection.\<close>

definition ride :: "int \<Rightarrow> (string \<times> pyval) list \<Rightarrow> pyval" where
  "ride n m = PDict
     [(''id'', PInt n), (''name'', PStr ''Morning Ride''),
      (''distance'', PFloat (PyFloat False 12345 ''67'')),
      (''type'', PStr ''Ride''), (''start_date_local'', PStr ''2024-05-01T07:00:00Z''),
      (''map'', PDict m)]"

definition ride_view :: "int \<Rightarrow> pyval" where
  "ride_view n = PDict
     [(''id'', PInt n), (''name'', PStr ''Morning Ride''),
      (''distance'', PFloat (PyFloat False 12345 ''67'')),
      (''type'', PStr ''Ride''), (''start_date'', PStr ''2024-05-01T07:00:00Z'')]"

definition activity_provider :: "pyval list \<Rightarrow> strava_net" where
  "activity_provider acts =
     \<lparr>post_refresh = (\<lambda>rt. Inl RequestException),
      get_athlete_activities = (\<lambda>tok page per_page. Inr (PList acts)),
      get_streams = (\<lambda>activity_id tok. Inl RequestException)\<rparr>"

text \<open>The coordinates \<open>[[45.0, -122.0], [45.1, -122.1]]\<close> and the document expected for them.\<close>

definition example_coords :: "pyfloat list list" where
  "example_coords = [[PyFloat False 45 [], PyFloat True 122 []],
                     [PyFloat False 45 ''1'', PyFloat True 122 ''1'']]"

definition example_gpx :: string where
  \<open>example_gpx =
     ''<?xml version="1.0" encoding="UTF-8"?>\<newline>''
     @ ''<gpx version="1.1" creator="Strava Route Discovery App" xmlns="http://www.topografix.com/GPX/1/1">\<newline>''
     @ ''  <trk>\<newline>''
     @ ''    <name>Activity 123</name>\<newline>''
     @ ''    <trkseg>\<newline>''
     @ ''  <trkpt lat="45.0" lon="-122.0"></trkpt>\<newline>''
     @ ''  <trkpt lat="45.1" lon="-122.1"></trkpt>\<newline>''
     @ ''\<newline>''
     @ ''    </trkseg>\<newline>''
     @ ''  </trk>\<newline>''
     @ ''</gpx>\<newline>''\<close>

section \<open>Verified properties\<close>

subsection \<open>Route sampling is not total\<close>

text \<open>
  C6. The claim: for every well-formed route of at least two points POI resolution
  completes without an error, route sampling being total for every such length. At the
  default sampling distance 500 a route of three points makes
  \<open>len(route_coords) * 100 // sample_distance\<close> zero, so the next floor division raises
  \<open>ZeroDivisionError\<close>: no search call is issued and the handler answers 500.
\<close>

theorem sample_route_points_three_points_raises:
  "sample_route_points
     [(PFloat (PyFloat True 122 ''''), PFloat (PyFloat False 45 '''')),
      (PFloat (PyFloat True 122 ''1''), PFloat (PyFloat False 45 ''1'')),
      (PFloat (PyFloat True 122 ''2''), PFloat (PyFloat False 45 ''2''))] 500
     = Inl ZeroDivisionError
   \<and> get_nearby_pois (Some gm) \<lparr>POI_SEARCH_RADIUS = 100, POI_ROUTE_SAMPLING_DISTANCE = 500\<rparr>
       (PDict [(''route'', PList
          [PList [PFloat (PyFloat False 45 ''''), PFloat (PyFloat True 122 '''')],
           PList [PFloat (PyFloat False 45 ''1''), PFloat (PyFloat True 122 ''1'')],
           PList [PFloat (PyFloat False 45 ''2''), PFloat (PyFloat True 122 ''2'')]])])
     = (Inr (json_error 500 ''Failed to retrieve points of interest''), [])"
  by (simp add: get_nearby_pois_def get_pois_for_route_def sample_route_points_def
        bind_err_def floordiv_def)

text \<open>Sampling raises exactly when the inner quotient is undefined or zero.\<close>

lemma sample_route_points_raises_iff:
  "(\<exists>e. sample_route_points route_coords sample_distance = Inl e)
     \<longleftrightarrow> 2 < length route_coords
         \<and> (sample_distance = 0 \<or> int (length route_coords) * 100 div sample_distance = 0)"
  by (auto simp: sample_route_points_def bind_err_def floordiv_def Let_def)

lemma sample_route_points_default_raises_iff:
  "(\<exists>e. sample_route_points route_coords 500 = Inl e)
     \<longleftrightarrow> length route_coords = 3 \<or> length route_coords = 4"
  unfolding sample_route_points_raises_iff by auto

subsection \<open>Deduplication by place identifier\<close>

text \<open>A step of the inner loop leaves \<open>found_pois\<close> as it is or appends one entry under a new key.\<close>

lemma add_poi_cases:
  assumes "add_poi found poi = Inr found'"
  shows "\<exists>pid. py_getitem poi ''place_id'' = Inr pid
           \<and> (if pid \<in> set (map fst found) then found' = found
               else \<exists>r. build_poi poi = Inr r \<and> found' = found @ [(pid, r)])"
  using assms
  by (auto simp: add_poi_def bind_err_def split: sum.splits if_splits)

lemma process_results_append:
  "process_results found (xs @ ys)
     = bind_err (process_results found xs) (\<lambda>mid. process_results mid ys)"
proof (induction xs arbitrary: found)
  case Nil
  show ?case by (simp add: bind_err_def)
next
  case (Cons x xs)
  show ?case
    by (cases "add_poi found x") (simp_all add: bind_err_def Cons.IH)
qed

lemma process_results_extends:
  "process_results found results = Inr found' \<Longrightarrow> \<exists>ext. found' = found @ ext"
proof (induction results arbitrary: found)
  case Nil
  then show ?case by simp
next
  case (Cons poi rest)
  from Cons.prems obtain mid where mid: "add_poi found poi = Inr mid"
    and rest: "process_results mid rest = Inr found'"
    by (cases "add_poi found poi") (simp_all add: bind_err_def)
  from add_poi_cases [OF mid] obtain e1 where e1: "mid = found @ e1"
    by (auto split: if_splits)
  from Cons.IH [OF rest] obtain e2 where "found' = mid @ e2" by blast
  with e1 show ?case by simp
qed

lemma process_results_distinct:
  "distinct (map fst found) \<Longrightarrow> process_results found results = Inr found'
     \<Longrightarrow> distinct (map fst found')"
proof (induction results arbitrary: found)
  case Nil
  then show ?case by simp
next
  case (Cons poi rest)
  from Cons.prems(2) obtain mid where mid: "add_poi found poi = Inr mid"
    and rest: "process_results mid rest = Inr found'"
    by (cases "add_poi found poi") (simp_all add: bind_err_def)
  from add_poi_cases [OF mid] Cons.prems(1) have "distinct (map fst mid)"
    by (auto split: if_splits)
  then show ?case using rest by (rule Cons.IH)
qed

lemma process_results_avoids:
  "pid \<notin> set (map fst found) \<Longrightarrow> process_results found pre = Inr mid
     \<Longrightarrow> \<forall>q \<in> set pre. py_getitem q ''place_id'' \<noteq> Inr pid
     \<Longrightarrow> pid \<notin> set (map fst mid)"
proof (induction pre arbitrary: found)
  case Nil
  then show ?case by simp
next
  case (Cons q pre)
  from Cons.prems(2) obtain f1 where f1: "add_poi found q = Inr f1"
    and rest: "process_results f1 pre = Inr mid"
    by (cases "add_poi found q") (simp_all add: bind_err_def)
  from add_poi_cases [OF f1] Cons.prems(1,3) have "pid \<notin> set (map fst f1)"
    by (auto split: if_splits)
  then show ?case using rest Cons.prems(3) by (intro Cons.IH) auto
qed

lemma filter_key_distinct:
  assumes "distinct (map fst (xs @ (k, v) # ys))"
  shows "filter (\<lambda>kv. fst kv = k) (xs @ (k, v) # ys) = [(k, v)]"
proof -
  from assms have "k \<notin> fst ` set xs" "k \<notin> fst ` set ys" by auto
  then have "filter (\<lambda>kv. fst kv = k) xs = []" "filter (\<lambda>kv. fst kv = k) ys = []"
    by (auto simp: filter_empty_conv)
  then show ?thesis by simp
qed

lemma process_results_first:
  assumes d: "distinct (map fst found)"
      and fresh: "pid \<notin> set (map fst found)"
      and run: "process_results found (pre @ poi # post) = Inr final"
      and pid: "py_getitem poi ''place_id'' = Inr pid"
      and pre: "\<forall>q \<in> set pre. py_getitem q ''place_id'' \<noteq> Inr pid"
  shows "\<exists>r. build_poi poi = Inr r \<and> filter (\<lambda>kv. fst kv = pid) final = [(pid, r)]"
proof -
  from run obtain mid where mid: "process_results found pre = Inr mid"
    and tail: "process_results mid (poi # post) = Inr final"
    by (cases "process_results found pre") (simp_all add: process_results_append bind_err_def)
  have fresh_mid: "pid \<notin> set (map fst mid)"
    using fresh mid pre by (rule process_results_avoids)
  have d_mid: "distinct (map fst mid)"
    using d mid by (rule process_results_distinct)
  from tail obtain nxt where nxt: "add_poi mid poi = Inr nxt"
    and post: "process_results nxt post = Inr final"
    by (cases "add_poi mid poi") (simp_all add: bind_err_def)
  from add_poi_cases [OF nxt] pid fresh_mid obtain r
    where r: "build_poi poi = Inr r" and nxt_eq: "nxt = mid @ [(pid, r)]"
    by (auto split: if_splits)
  from process_results_extends [OF post] obtain ext where ext: "final = nxt @ ext" by blast
  have "distinct (map fst nxt)" using d_mid fresh_mid nxt_eq by simp
  then have "distinct (map fst final)" using post by (rule process_results_distinct)
  then have "distinct (map fst (mid @ (pid, r) # ext))" using ext nxt_eq by simp
  then have "filter (\<lambda>kv. fst kv = pid) (mid @ (pid, r) # ext) = [(pid, r)]"
    by (rule filter_key_distinct)
  with r ext nxt_eq show ?thesis by simp
qed

text \<open>A resolution that returns has run the inner loop over all visited results without an exception.\<close>

lemma search_at_Inr:
  "search_at gm cfg found loc = Inr found' \<Longrightarrow>
     \<exists>rs. results_at gm cfg loc = Inr rs \<and> process_results found rs = Inr found'"
  by (auto simp: search_at_def bind_err_def split: sum.splits)

lemma search_points_as_process_results:
  "search_points gm cfg found calls pts = (Inr final, calls') \<Longrightarrow>
     process_results found (visited_results gm cfg pts) = Inr final \<and> calls' = calls @ pts"
proof (induction pts arbitrary: found calls)
  case Nil
  then show ?case by (simp add: visited_results_def)
next
  case (Cons loc pts)
  from Cons.prems obtain mid where mid: "search_at gm cfg found loc = Inr mid"
    and rest: "search_points gm cfg mid (calls @ [loc]) pts = (Inr final, calls')"
    by (cases "search_at gm cfg found loc") simp_all
  from search_at_Inr [OF mid] obtain rs where rs: "results_at gm cfg loc = Inr rs"
    and step: "process_results found rs = Inr mid" by blast
  from Cons.IH [OF rest] have ih: "process_results mid (visited_results gm cfg pts) = Inr final"
    and c: "calls' = (calls @ [loc]) @ pts" by simp_all
  have "visited_results gm cfg (loc # pts) = rs @ visited_results gm cfg pts"
    using rs by (simp add: visited_results_def)
  then show ?case using step ih c by (simp add: process_results_append bind_err_def)
qed

text \<open>
  Where the resolution returns, every place identifier among the visited results has
  exactly one record.
\<close>

lemma returned_pois_one_record_per_place_id:
  assumes run: "search_points gm cfg [] [] pts = (Inr final, calls)"
      and seen: "poi \<in> set (visited_results gm cfg pts)"
      and pid: "py_getitem poi ''place_id'' = Inr pid"
  shows "length (filter (\<lambda>kv. fst kv = pid) final) = 1"
proof -
  from seen pid have "\<exists>q \<in> set (visited_results gm cfg pts). py_getitem q ''place_id'' = Inr pid"
    by blast
  from split_list_first_prop [OF this]
  obtain pre q post where split: "visited_results gm cfg pts = pre @ q # post"
    and q: "py_getitem q ''place_id'' = Inr pid"
    and pre: "\<forall>y \<in> set pre. py_getitem y ''place_id'' \<noteq> Inr pid"
    by blast
  from search_points_as_process_results [OF run] split
  have "process_results [] (pre @ q # post) = Inr final" by simp
  from process_results_first [OF _ _ this q pre]
  obtain r where "filter (\<lambda>kv. fst kv = pid) final = [(pid, r)]" by auto
  then show ?thesis by simp
qed

lemma returned_place_ids_distinct:
  assumes "search_points gm cfg [] [] pts = (Inr final, calls)"
  shows "distinct (map fst final)"
proof -
  from search_points_as_process_results [OF assms]
  have "process_results [] (visited_results gm cfg pts) = Inr final" by simp
  with process_results_distinct [of "[]"] show ?thesis by simp
qed

text \<open>
  C10. First discovery wins. Take a resolution that returns, with the dict \<open>final\<close> whose
  values are the output, and the first result \<open>poi\<close>, in sample-point iteration order,
  that carries the place identifier \<open>pid\<close>. Then the record built from \<open>poi\<close> is the
  one and only entry for \<open>pid\<close> in \<open>final\<close>, whatever the later results \<open>post\<close> with
  the same identifier contain: none of them replaces the name, type, coords, rating or
  price level stored first.
\<close>

theorem first_discovery_wins:
  assumes "route_coords \<noteq> []"
      and "sample_route_points route_coords (POI_ROUTE_SAMPLING_DISTANCE cfg) = Inr pts"
      and "search_points gm cfg [] [] pts = (Inr final, calls)"
      and "visited_results gm cfg pts = pre @ poi # post"
      and "py_getitem poi ''place_id'' = Inr pid"
      and "\<forall>q \<in> set pre. py_getitem q ''place_id'' \<noteq> Inr pid"
  shows "get_pois_for_route (Some gm) cfg route_coords = (Inr (map snd final), pts)
       \<and> (\<exists>r. build_poi poi = Inr r \<and> filter (\<lambda>kv. fst kv = pid) final = [(pid, r)])"
proof -
  from search_points_as_process_results [OF assms(3)]
  have run: "process_results [] (pre @ poi # post) = Inr final" and c: "calls = pts"
    using assms(4) by simp_all
  have out: "get_pois_for_route (Some gm) cfg route_coords = (Inr (map snd final), pts)"
    using assms(1,2,3) c by (simp add: get_pois_for_route_def)
  have "\<exists>r. build_poi poi = Inr r \<and> filter (\<lambda>kv. fst kv = pid) final = [(pid, r)]"
    by (rule process_results_first [OF _ _ run assms(5,6)]) simp_all
  with out show ?thesis by blast
qed


text \<open>The example: both sample circles return the same place, the second under another name.\<close>

lemma cafe_type_label:
  "title (replace_char (CHR ''_'') (CHR '' '')
     (poi_type_of [PStr ''food'', PStr ''art_gallery'', PStr ''cafe''])) = ''Art Gallery''"
  by code_simp

lemma build_cafe: "build_poi cafe_place = Inr cafe_record"
  by (simp add: build_poi_def bind_err_def cafe_place_def cafe_record_def cafe_type_label)

lemma cafe_place_id:
  "py_getitem cafe_place ''place_id'' = Inr (PStr ''ChIJ-cafe'')"
  "py_getitem cafe_place_renamed ''place_id'' = Inr (PStr ''ChIJ-cafe'')"
  by (simp_all add: cafe_place_def cafe_place_renamed_def)

lemma add_cafe_first: "add_poi [] cafe_place = Inr [(PStr ''ChIJ-cafe'', cafe_record)]"
  by (simp add: add_poi_def bind_err_def build_cafe cafe_place_id)

lemma add_cafe_again:
  "add_poi [(PStr ''ChIJ-cafe'', cafe_record)] cafe_place = Inr [(PStr ''ChIJ-cafe'', cafe_record)]"
  "add_poi [(PStr ''ChIJ-cafe'', cafe_record)] cafe_place_renamed
     = Inr [(PStr ''ChIJ-cafe'', cafe_record)]"
  by (simp_all add: add_poi_def bind_err_def cafe_place_id)

lemma two_point_route_sampled:
  "sample_route_points two_point_route (POI_ROUTE_SAMPLING_DISTANCE default_config)
     = Inr two_sample_points"
  by (simp add: sample_route_points_def two_point_route_def two_sample_points_def)

lemma overlapping_results:
  "results_at overlapping_search default_config (two_sample_points ! 0) = Inr [cafe_place]"
  "results_at overlapping_search default_config (two_sample_points ! 1)
     = Inr [cafe_place_renamed, cafe_place]"
  by (simp_all add: results_at_def overlapping_search_def bind_err_def two_sample_points_def)

lemma overlapping_visited:
  "visited_results overlapping_search default_config two_sample_points
     = [] @ cafe_place # [cafe_place_renamed, cafe_place]"
  using overlapping_results
  by (simp add: visited_results_def two_sample_points_def)

lemma overlapping_search_run:
  "search_points overlapping_search default_config [] [] two_sample_points
     = (Inr [(PStr ''ChIJ-cafe'', cafe_record)], two_sample_points)"
  using overlapping_results
  by (simp add: two_sample_points_def search_at_def bind_err_def
      add_cafe_first add_cafe_again)

theorem first_discovery_wins_witness:
  "two_point_route \<noteq> []
   \<and> sample_route_points two_point_route (POI_ROUTE_SAMPLING_DISTANCE default_config)
       = Inr two_sample_points
   \<and> search_points overlapping_search default_config [] [] two_sample_points
       = (Inr [(PStr ''ChIJ-cafe'', cafe_record)], two_sample_points)
   \<and> visited_results overlapping_search default_config two_sample_points
       = [] @ cafe_place # [cafe_place_renamed, cafe_place]
   \<and> py_getitem cafe_place ''place_id'' = Inr (PStr ''ChIJ-cafe'')
   \<and> py_getitem cafe_place_renamed ''place_id'' = Inr (PStr ''ChIJ-cafe'')
   \<and> get_pois_for_route (Some overlapping_search) default_config two_point_route
       = (Inr [cafe_record], two_sample_points)
   \<and> build_poi cafe_place = Inr cafe_record
   \<and> build_poi cafe_place_renamed \<noteq> Inr cafe_record
   \<and> filter (\<lambda>kv. fst kv = PStr ''ChIJ-cafe'') [(PStr ''ChIJ-cafe'', cafe_record)]
       = [(PStr ''ChIJ-cafe'', cafe_record)]"
proof -
  have h1: "two_point_route \<noteq> []" by (simp add: two_point_route_def)
  have h6: "\<forall>q \<in> set ([] :: pyval list). py_getitem q ''place_id'' \<noteq> Inr (PStr ''ChIJ-cafe'')"
    by simp
  have other: "build_poi cafe_place_renamed \<noteq> Inr cafe_record"
    by (simp add: build_poi_def bind_err_def cafe_place_renamed_def cafe_record_def)
  from first_discovery_wins
         [OF h1 two_point_route_sampled overlapping_search_run overlapping_visited
             cafe_place_id(1) h6]
  show ?thesis
    using h1 two_point_route_sampled overlapping_search_run overlapping_visited cafe_place_id
      build_cafe other
    by simp
qed

text \<open>
  C7. The claim: for every valid route of at least two points Strategy B returns a result
  set without duplicate place identifiers. For a route of three points, at the default
  sampling distance, no result set is returned at all: sampling raises
  \<open>ZeroDivisionError\<close> before any search.
\<close>

theorem three_point_route_returns_no_result:
  "2 \<le> length three_point_route
   \<and> get_pois_for_route (Some overlapping_search) default_config three_point_route
       = (Inl ZeroDivisionError, [])"
  by (simp add: three_point_route_def get_pois_for_route_def sample_route_points_def
      default_config_def bind_err_def floordiv_def)

subsection \<open>Session Gate\<close>

lemma no_refresh_in_client_calls: "filter is_refresh (map Client cs) = []"
  by (induction cs) auto

text \<open>
  C1. For a request whose session holds a token, in both variants of the gate. When
  \<open>expires_at\<close> lies in the past, the gate calls refresh exactly once, with the token's
  refresh token, and this call is the first event and the only one before the dispatch:
  when the refresh returns a token, that token is stored in the session and the wrapped
  handler is dispatched next, on the updated session; when the refresh raises, the refresh
  call is the only event. When \<open>expires_at\<close> does not lie in the past, no refresh call is
  made and the handler is dispatched at once on the unchanged session.
\<close>

theorem auth_required_refresh_once:
  assumes "sess ''strava_token'' = Some t"
  shows "(of_int (expires_at t) < now \<longrightarrow>
            filter is_refresh (fst (snd (auth_required net now f sess))) = [Refresh (refresh_token t)]
          \<and> takeWhile (\<lambda>e. e \<noteq> Dispatch) (fst (snd (auth_required net now f sess)))
              = [Refresh (refresh_token t)]
          \<and> filter is_refresh (fst (snd (backend_auth_required net now f sess)))
              = [Refresh (refresh_token t)]
          \<and> takeWhile (\<lambda>e. e \<noteq> Dispatch) (fst (snd (backend_auth_required net now f sess)))
              = [Refresh (refresh_token t)]
          \<and> (\<forall>u. refresh_access_token net (refresh_token t) = Inr u \<longrightarrow>
                auth_required net now f sess
                  = (sess(''strava_token'' \<mapsto> u),
                     Refresh (refresh_token t) # Dispatch
                       # map Client (fst (f (sess(''strava_token'' \<mapsto> u)))),
                     snd (f (sess(''strava_token'' \<mapsto> u)))))
          \<and> (\<forall>e. refresh_access_token net (refresh_token t) = Inl e \<longrightarrow>
                fst (snd (auth_required net now f sess)) = [Refresh (refresh_token t)])
          \<and> (\<forall>u. backend_refresh_access_token net (refresh_token t) = Inr u \<longrightarrow>
                backend_auth_required net now f sess
                  = (sess(''strava_token'' \<mapsto> u),
                     Refresh (refresh_token t) # Dispatch
                       # map Client (fst (f (sess(''strava_token'' \<mapsto> u)))),
                     snd (f (sess(''strava_token'' \<mapsto> u)))))
          \<and> (\<forall>e. backend_refresh_access_token net (refresh_token t) = Inl e \<longrightarrow>
                fst (snd (backend_auth_required net now f sess)) = [Refresh (refresh_token t)]))
       \<and> (now \<le> of_int (expires_at t) \<longrightarrow>
            filter is_refresh (fst (snd (auth_required net now f sess))) = []
          \<and> hd (fst (snd (auth_required net now f sess))) = Dispatch
          \<and> filter is_refresh (fst (snd (backend_auth_required net now f sess))) = []
          \<and> hd (fst (snd (backend_auth_required net now f sess))) = Dispatch
          \<and> auth_required net now f sess
              = (sess, Dispatch # map Client (fst (f sess)), snd (f sess))
          \<and> backend_auth_required net now f sess
              = (sess, Dispatch # map Client (fst (f sess)), snd (f sess)))"
proof -
  have expired: "filter is_refresh (fst (snd (auth_required net now f sess)))
        = [Refresh (refresh_token t)]
      \<and> takeWhile (\<lambda>e. e \<noteq> Dispatch) (fst (snd (auth_required net now f sess)))
        = [Refresh (refresh_token t)]
      \<and> filter is_refresh (fst (snd (backend_auth_required net now f sess)))
        = [Refresh (refresh_token t)]
      \<and> takeWhile (\<lambda>e. e \<noteq> Dispatch) (fst (snd (backend_auth_required net now f sess)))
        = [Refresh (refresh_token t)]"
    if "of_int (expires_at t) < now"
    using assms that
    by (auto simp: auth_required_def backend_auth_required_def Let_def
        no_refresh_in_client_calls split: sum.splits)
  have ok: "auth_required net now f sess
        = (sess(''strava_token'' \<mapsto> u),
           Refresh (refresh_token t) # Dispatch
             # map Client (fst (f (sess(''strava_token'' \<mapsto> u)))),
           snd (f (sess(''strava_token'' \<mapsto> u))))"
    if "of_int (expires_at t) < now" "refresh_access_token net (refresh_token t) = Inr u" for u
    using assms that by (simp add: auth_required_def Let_def)
  have failed: "fst (snd (auth_required net now f sess)) = [Refresh (refresh_token t)]"
    if "of_int (expires_at t) < now" "refresh_access_token net (refresh_token t) = Inl e" for e
    using assms that by (simp add: auth_required_def)
  have b_ok: "backend_auth_required net now f sess
        = (sess(''strava_token'' \<mapsto> u),
           Refresh (refresh_token t) # Dispatch
             # map Client (fst (f (sess(''strava_token'' \<mapsto> u)))),
           snd (f (sess(''strava_token'' \<mapsto> u))))"
    if "of_int (expires_at t) < now" "backend_refresh_access_token net (refresh_token t) = Inr u"
    for u
    using assms that by (simp add: backend_auth_required_def Let_def)
  have b_failed: "fst (snd (backend_auth_required net now f sess)) = [Refresh (refresh_token t)]"
    if "of_int (expires_at t) < now" "backend_refresh_access_token net (refresh_token t) = Inl e"
    for e
    using assms that by (simp add: backend_auth_required_def)
  have fresh: "filter is_refresh (fst (snd (auth_required net now f sess))) = []
      \<and> hd (fst (snd (auth_required net now f sess))) = Dispatch
      \<and> filter is_refresh (fst (snd (backend_auth_required net now f sess))) = []
      \<and> hd (fst (snd (backend_auth_required net now f sess))) = Dispatch
      \<and> auth_required net now f sess
          = (sess, Dispatch # map Client (fst (f sess)), snd (f sess))
      \<and> backend_auth_required net now f sess
          = (sess, Dispatch # map Client (fst (f sess)), snd (f sess))"
    if "now \<le> of_int (expires_at t)"
    using assms that
    by (simp add: auth_required_def backend_auth_required_def no_refresh_in_client_calls)
  from expired ok failed b_ok b_failed fresh show ?thesis by blast
qed

lemma refresh_old: "refresh_access_token (provider r) ''refresh-1'' = wrap_request_error r"
  by (simp add: refresh_access_token_def provider_def)

lemma backend_refresh_old: "backend_refresh_access_token (provider r) ''refresh-1'' = r"
  by (simp add: backend_refresh_access_token_def provider_def)

theorem auth_required_refresh_once_witness:
  "session_with expired_token ''strava_token'' = Some expired_token
   \<and> of_int (expires_at expired_token) < (2000::rat)
   \<and> refresh_access_token (provider (Inr fresh_token)) (refresh_token expired_token)
       = Inr fresh_token
   \<and> backend_refresh_access_token (provider (Inr fresh_token)) (refresh_token expired_token)
       = Inr fresh_token
   \<and> fst (snd (auth_required (provider (Inr fresh_token)) 2000
         (get_activities_handler (provider (Inr fresh_token)) Inr) (session_with expired_token)))
      = [Refresh ''refresh-1'', Dispatch, Client (ListActivities ''access-new'' 50)]
   \<and> fst (snd (backend_auth_required (provider (Inr fresh_token)) 2000
         (get_activities_handler (provider (Inr fresh_token)) Inr) (session_with expired_token)))
      = [Refresh ''refresh-1'', Dispatch, Client (ListActivities ''access-new'' 50)]
   \<and> refresh_access_token (provider (Inl RequestException)) (refresh_token expired_token)
       = Inl StravaAPIError
   \<and> backend_refresh_access_token (provider (Inl RequestException)) (refresh_token expired_token)
       = Inl RequestException
   \<and> fst (snd (auth_required (provider (Inl RequestException)) 2000
         (get_activities_handler (provider (Inl RequestException)) Inr)
         (session_with expired_token)))
      = [Refresh ''refresh-1'']
   \<and> fst (snd (backend_auth_required (provider (Inl RequestException)) 2000
         (get_activities_handler (provider (Inl RequestException)) Inr)
         (session_with expired_token)))
      = [Refresh ''refresh-1'']
   \<and> session_with fresh_token ''strava_token'' = Some fresh_token
   \<and> (2000::rat) \<le> of_int (expires_at fresh_token)
   \<and> fst (snd (auth_required (provider (Inr fresh_token)) 2000
         (get_activities_handler (provider (Inr fresh_token)) Inr) (session_with fresh_token)))
      = [Dispatch, Client (ListActivities ''access-new'' 50)]
   \<and> fst (snd (backend_auth_required (provider (Inr fresh_token)) 2000
         (get_activities_handler (provider (Inr fresh_token)) Inr) (session_with fresh_token)))
      = [Dispatch, Client (ListActivities ''access-new'' 50)]"
proof -
  let ?net = "provider (Inr fresh_token)"
  let ?bad = "provider (Inl RequestException)"
  let ?f = "get_activities_handler ?net Inr"
  let ?g = "get_activities_handler ?bad Inr"
  have h1: "session_with expired_token ''strava_token'' = Some expired_token"
    by (simp add: session_with_def)
  have h2: "session_with fresh_token ''strava_token'' = Some fresh_token"
    by (simp add: session_with_def)
  have old: "of_int (expires_at expired_token) < (2000::rat)"
    by (simp add: expired_token_def)
  have new: "(2000::rat) \<le> of_int (expires_at fresh_token)"
    by (simp add: fresh_token_def)
  have r1: "refresh_access_token ?net (refresh_token expired_token) = Inr fresh_token"
    by (simp add: expired_token_def refresh_old wrap_request_error_def)
  have r2: "backend_refresh_access_token ?net (refresh_token expired_token) = Inr fresh_token"
    by (simp add: expired_token_def backend_refresh_old)
  have r3: "refresh_access_token ?bad (refresh_token expired_token) = Inl StravaAPIError"
    by (simp add: expired_token_def refresh_old wrap_request_error_def)
  have r4: "backend_refresh_access_token ?bad (refresh_token expired_token)
      = Inl RequestException"
    by (simp add: expired_token_def backend_refresh_old)
  have calls: "fst (?f ((session_with expired_token)(''strava_token'' \<mapsto> fresh_token)))
      = [ListActivities ''access-new'' 50]"
    "fst (?f (session_with fresh_token)) = [ListActivities ''access-new'' 50]"
    by (simp_all add: get_activities_handler_def session_with_def fresh_token_def)
  note a = auth_required_refresh_once
         [where sess = "session_with expired_token" and t = expired_token and now = 2000
            and net = ?net and f = ?f, OF h1]
  note b = auth_required_refresh_once
         [where sess = "session_with expired_token" and t = expired_token and now = 2000
            and net = ?bad and f = ?g, OF h1]
  note c = auth_required_refresh_once
         [where sess = "session_with fresh_token" and t = fresh_token and now = 2000
            and net = ?net and f = ?f, OF h2]
  have rt: "refresh_token expired_token = ''refresh-1''"
    by (simp add: expired_token_def)
  from a old r1 have "auth_required ?net 2000 ?f (session_with expired_token)
      = ((session_with expired_token)(''strava_token'' \<mapsto> fresh_token),
         Refresh (refresh_token expired_token) # Dispatch
           # map Client (fst (?f ((session_with expired_token)(''strava_token'' \<mapsto> fresh_token)))),
         snd (?f ((session_with expired_token)(''strava_token'' \<mapsto> fresh_token))))"
    by blast
  then have a1: "fst (snd (auth_required ?net 2000 ?f (session_with expired_token)))
      = [Refresh ''refresh-1'', Dispatch, Client (ListActivities ''access-new'' 50)]"
    by (simp add: calls rt)
  from a old r2 have "backend_auth_required ?net 2000 ?f (session_with expired_token)
      = ((session_with expired_token)(''strava_token'' \<mapsto> fresh_token),
         Refresh (refresh_token expired_token) # Dispatch
           # map Client (fst (?f ((session_with expired_token)(''strava_token'' \<mapsto> fresh_token)))),
         snd (?f ((session_with expired_token)(''strava_token'' \<mapsto> fresh_token))))"
    by blast
  then have a2: "fst (snd (backend_auth_required ?net 2000 ?f (session_with expired_token)))
      = [Refresh ''refresh-1'', Dispatch, Client (ListActivities ''access-new'' 50)]"
    by (simp add: calls rt)
  from b old r3 have "fst (snd (auth_required ?bad 2000 ?g (session_with expired_token)))
      = [Refresh (refresh_token expired_token)]"
    by blast
  then have b1: "fst (snd (auth_required ?bad 2000 ?g (session_with expired_token)))
      = [Refresh ''refresh-1'']"
    by (simp add: rt)
  from b old r4 have "fst (snd (backend_auth_required ?bad 2000 ?g (session_with expired_token)))
      = [Refresh (refresh_token expired_token)]"
    by blast
  then have b2: "fst (snd (backend_auth_required ?bad 2000 ?g (session_with expired_token)))
      = [Refresh ''refresh-1'']"
    by (simp add: rt)
  from c new have "auth_required ?net 2000 ?f (session_with fresh_token)
      = (session_with fresh_token, Dispatch # map Client (fst (?f (session_with fresh_token))),
         snd (?f (session_with fresh_token)))"
    by blast
  then have c1: "fst (snd (auth_required ?net 2000 ?f (session_with fresh_token)))
      = [Dispatch, Client (ListActivities ''access-new'' 50)]"
    by (simp add: calls)
  from c new have "backend_auth_required ?net 2000 ?f (session_with fresh_token)
      = (session_with fresh_token, Dispatch # map Client (fst (?f (session_with fresh_token))),
         snd (?f (session_with fresh_token)))"
    by blast
  then have c2: "fst (snd (backend_auth_required ?net 2000 ?f (session_with fresh_token)))
      = [Dispatch, Client (ListActivities ''access-new'' 50)]"
    by (simp add: calls)
  from h1 h2 old new r1 r2 r3 r4 a1 a2 b1 b2 c1 c2 show ?thesis by blast
qed

text \<open>
  C2. When the refresh call of the gate fails, the session is emptied, the response is
  401 with a message that differs from the one for a missing token, the wrapped handler is
  not dispatched, and \<open>GET /auth/status\<close> on the resulting session answers
  \<open>{authenticated: false}\<close> at any later time.
\<close>

theorem refresh_failure_clears_session:
  assumes "sess ''strava_token'' = Some t"
      and "of_int (expires_at t) < now"
      and "refresh_access_token net (refresh_token t) = Inl StravaAPIError"
  shows "auth_required net now f sess
           = (Map.empty, [Refresh (refresh_token t)],
              Inr (json_error 401 ''Authentication expired, please re-authenticate''))
       \<and> Dispatch \<notin> set (fst (snd (auth_required net now f sess)))
       \<and> json_error 401 ''Authentication expired, please re-authenticate''
           \<noteq> json_error 401 ''Authentication required''
       \<and> (\<forall>later. auth_status later (fst (auth_required net now f sess))
             = jsonify 200 (PDict [(''authenticated'', PBool False)]))"
  using assms
  by (simp add: auth_required_def auth_status_def json_error_def jsonify_def)

theorem refresh_failure_clears_session_witness:
  "session_with expired_token ''strava_token'' = Some expired_token
   \<and> of_int (expires_at expired_token) < (2000::rat)
   \<and> refresh_access_token (provider (Inl RequestException)) (refresh_token expired_token)
       = Inl StravaAPIError
   \<and> auth_required (provider (Inl RequestException)) 2000
        (get_activities_handler (provider (Inl RequestException)) Inr) (session_with expired_token)
       = (Map.empty, [Refresh ''refresh-1''],
          Inr (json_error 401 ''Authentication expired, please re-authenticate''))
   \<and> auth_status 2001 (fst (auth_required (provider (Inl RequestException)) 2000
        (get_activities_handler (provider (Inl RequestException)) Inr) (session_with expired_token)))
       = jsonify 200 (PDict [(''authenticated'', PBool False)])"
proof -
  let ?net = "provider (Inl RequestException)"
  have h1: "session_with expired_token ''strava_token'' = Some expired_token"
    by (simp add: session_with_def)
  have h2: "of_int (expires_at expired_token) < (2000::rat)"
    by (simp add: expired_token_def)
  have h3: "refresh_access_token ?net (refresh_token expired_token) = Inl StravaAPIError"
    by (simp add: expired_token_def refresh_old wrap_request_error_def)
  from refresh_failure_clears_session
         [where sess = "session_with expired_token" and t = expired_token and now = 2000
            and net = ?net and f = "get_activities_handler ?net Inr", OF h1 h2 h3]
  show ?thesis using h1 h2 h3 by (simp add: expired_token_def auth_status_def)
qed

text \<open>The gate of the second variant does the same for every exception.\<close>

lemma backend_refresh_failure_clears_session:
  assumes "sess ''strava_token'' = Some t"
      and "of_int (expires_at t) < now"
      and "backend_refresh_access_token net (refresh_token t) = Inl e"
  shows "backend_auth_required net now f sess
           = (Map.empty, [Refresh (refresh_token t)],
              Inr (json_error 401 ''Failed to refresh token, please re-authenticate''))"
  using assms by (simp add: backend_auth_required_def)

text \<open>
  C3, as stated, fails: the token that the refresh returns is stored and used without a
  look at its \<open>expires_at\<close>. Here the refresh at time 2000 returns a token that expired at
  1500, and the activity list is fetched with its access token.
\<close>

theorem stale_refreshed_token_is_used:
  "fst (auth_required (provider (Inr stale_token)) 2000
          (get_activities_handler (provider (Inr stale_token)) Inr) (session_with expired_token))
       ''strava_token'' = Some stale_token
   \<and> of_int (expires_at stale_token) < (2000::rat)
   \<and> Client (ListActivities (access_token stale_token) 50)
       \<in> set (fst (snd (auth_required (provider (Inr stale_token)) 2000
          (get_activities_handler (provider (Inr stale_token)) Inr) (session_with expired_token))))"
  by (simp add: auth_required_def session_with_def expired_token_def refresh_old
        wrap_request_error_def stale_token_def get_activities_handler_def)

lemma handler_calls:
  assumes "h = get_activities_handler net rounding \<or> h = get_activity_stream_data net activity_id
             \<or> h = get_activity_gpx net fmt activity_id"
      and "s ''strava_token'' = Some u"
      and "c \<in> set (fst (h s))"
  shows "call_token c = access_token u"
  using assms
  by (auto simp: get_activities_handler_def get_activity_stream_data_def get_activity_gpx_def)

text \<open>
  C3, amended. For each of the three protected handlers of app.py (activity list,
  coordinate stream, GPX), which are the ones that call the Activity Data Client, the gate
  compares the \<open>expires_at\<close> of the session token with the current time before any client
  call. A token that is not past expiry is used as it is. For a token past expiry, a
  successful refresh replaces it in the session and every client call carries the access
  token of the token returned (whose own \<open>expires_at\<close> is not examined); when the refresh
  raises, no client call is made, and the response is 401 when it raised \<open>StravaAPIError\<close>.
\<close>

theorem protected_calls_use_checked_or_refreshed_token:
  assumes "h = get_activities_handler net rounding \<or> h = get_activity_stream_data net activity_id
             \<or> h = get_activity_gpx net fmt activity_id"
      and "sess ''strava_token'' = Some t"
  shows "(now \<le> of_int (expires_at t) \<longrightarrow>
            (\<forall>c. Client c \<in> set (fst (snd (auth_required net now h sess)))
                 \<longrightarrow> call_token c = access_token t))
       \<and> (of_int (expires_at t) < now \<longrightarrow>
            (\<forall>u. refresh_access_token net (refresh_token t) = Inr u \<longrightarrow>
                 fst (auth_required net now h sess) ''strava_token'' = Some u
               \<and> (\<forall>c. Client c \<in> set (fst (snd (auth_required net now h sess)))
                      \<longrightarrow> call_token c = access_token u))
          \<and> (\<forall>e. refresh_access_token net (refresh_token t) = Inl e \<longrightarrow>
                 (\<forall>c. Client c \<notin> set (fst (snd (auth_required net now h sess)))))
          \<and> (refresh_access_token net (refresh_token t) = Inl StravaAPIError \<longrightarrow>
                 snd (snd (auth_required net now h sess))
                   = Inr (json_error 401 ''Authentication expired, please re-authenticate'')))"
proof -
  have fresh: "call_token c = access_token t"
    if "now \<le> of_int (expires_at t)" "Client c \<in> set (fst (snd (auth_required net now h sess)))"
    for c
  proof -
    from that assms(2) have "c \<in> set (fst (h sess))"
      by (auto simp: auth_required_def)
    with assms show ?thesis by (rule handler_calls)
  qed
  have refreshed: "fst (auth_required net now h sess) ''strava_token'' = Some u
      \<and> (\<forall>c. Client c \<in> set (fst (snd (auth_required net now h sess)))
             \<longrightarrow> call_token c = access_token u)"
    if old: "of_int (expires_at t) < now" and ok: "refresh_access_token net (refresh_token t) = Inr u"
    for u
  proof -
    let ?s = "sess(''strava_token'' \<mapsto> u)"
    have run: "auth_required net now h sess
        = (?s, Refresh (refresh_token t) # Dispatch # map Client (fst (h ?s)), snd (h ?s))"
      using assms(2) old ok by (simp add: auth_required_def Let_def)
    have tok: "?s ''strava_token'' = Some u" by simp
    have "call_token c = access_token u" if "c \<in> set (fst (h ?s))" for c
      using assms(1) tok that by (rule handler_calls)
    with run show ?thesis by auto
  qed
  have failed: "Client c \<notin> set (fst (snd (auth_required net now h sess)))"
    if "of_int (expires_at t) < now" "refresh_access_token net (refresh_token t) = Inl e" for e c
    using that assms(2) by (simp add: auth_required_def)
  have rejected: "snd (snd (auth_required net now h sess))
      = Inr (json_error 401 ''Authentication expired, please re-authenticate'')"
    if "of_int (expires_at t) < now" "refresh_access_token net (refresh_token t) = Inl StravaAPIError"
    using that assms(2) by (simp add: auth_required_def)
  from fresh refreshed failed rejected show ?thesis by blast
qed

theorem protected_calls_use_checked_or_refreshed_token_witness:
  "session_with expired_token ''strava_token'' = Some expired_token
   \<and> of_int (expires_at expired_token) < (2000::rat)
   \<and> refresh_access_token (provider (Inr fresh_token)) (refresh_token expired_token)
       = Inr fresh_token
   \<and> fst (auth_required (provider (Inr fresh_token)) 2000
          (get_activity_stream_data (provider (Inr fresh_token)) 7) (session_with expired_token))
       ''strava_token'' = Some fresh_token
   \<and> fst (snd (auth_required (provider (Inr fresh_token)) 2000
          (get_activity_stream_data (provider (Inr fresh_token)) 7) (session_with expired_token)))
       = [Refresh ''refresh-1'', Dispatch, Client (ActivityStream 7 ''access-new'')]
   \<and> fst (snd (auth_required (provider (Inr fresh_token)) 2000
          (get_activity_gpx (provider (Inr fresh_token)) (\<lambda>v. []) 7) (session_with expired_token)))
       = [Refresh ''refresh-1'', Dispatch, Client (ActivityStream 7 ''access-new'')]
   \<and> fst (snd (auth_required (provider (Inr fresh_token)) 2000
          (get_activities_handler (provider (Inr fresh_token)) Inr) (session_with expired_token)))
       = [Refresh ''refresh-1'', Dispatch, Client (ListActivities ''access-new'' 50)]
   \<and> call_token (ActivityStream 7 ''access-new'') = access_token fresh_token
   \<and> call_token (ListActivities ''access-new'' 50) = access_token fresh_token"
proof -
  let ?net = "provider (Inr fresh_token)"
  let ?h = "get_activity_stream_data ?net 7"
  let ?g = "get_activity_gpx ?net (\<lambda>v. []) 7"
  let ?l = "get_activities_handler ?net Inr"
  have h1: "session_with expired_token ''strava_token'' = Some expired_token"
    by (simp add: session_with_def)
  have h2: "of_int (expires_at expired_token) < (2000::rat)"
    by (simp add: expired_token_def)
  have h3: "refresh_access_token ?net (refresh_token expired_token) = Inr fresh_token"
    by (simp add: expired_token_def refresh_old wrap_request_error_def)
  have ev: "fst (snd (auth_required ?net 2000 ?h (session_with expired_token)))
       = [Refresh ''refresh-1'', Dispatch, Client (ActivityStream 7 ''access-new'')]"
    using h3
    by (simp add: auth_required_def session_with_def expired_token_def fresh_token_def
        get_activity_stream_data_def)
  have ev_gpx: "fst (snd (auth_required ?net 2000 ?g (session_with expired_token)))
       = [Refresh ''refresh-1'', Dispatch, Client (ActivityStream 7 ''access-new'')]"
    using h3
    by (simp add: auth_required_def session_with_def expired_token_def fresh_token_def
        get_activity_gpx_def)
  have ev_list: "fst (snd (auth_required ?net 2000 ?l (session_with expired_token)))
       = [Refresh ''refresh-1'', Dispatch, Client (ListActivities ''access-new'' 50)]"
    using h3
    by (simp add: auth_required_def session_with_def expired_token_def fresh_token_def
        get_activities_handler_def)
  from protected_calls_use_checked_or_refreshed_token
         [where h = ?h and net = ?net and rounding = Inr and activity_id = 7
            and sess = "session_with expired_token" and t = expired_token and now = 2000]
       protected_calls_use_checked_or_refreshed_token
         [where h = ?g and net = ?net and fmt = "\<lambda>v. []" and activity_id = 7
            and sess = "session_with expired_token" and t = expired_token and now = 2000]
       protected_calls_use_checked_or_refreshed_token
         [where h = ?l and net = ?net and rounding = Inr
            and sess = "session_with expired_token" and t = expired_token and now = 2000]
  show ?thesis using h1 h2 h3 ev ev_gpx ev_list by (simp add: fresh_token_def)
qed

subsection \<open>Activity filter\<close>

text \<open>
  C4, as stated, fails: an activity whose \<open>summary_polyline\<close> is present and equal to the
  empty string is left out of the filtered result, because the comprehension tests the
  truth value of the field and not its presence.
\<close>

theorem empty_polyline_is_excluded:
  "bind_err (py_getitem (ride 2 [(''summary_polyline'', PStr [])]) ''map'')
        (\<lambda>m. py_getitem m ''summary_polyline'') = Inr (PStr [])
   \<and> filtered_activities Inr [ride 2 [(''summary_polyline'', PStr [])]] = Inr []
   \<and> snd (get_activities_handler (activity_provider [ride 2 [(''summary_polyline'', PStr [])]])
        Inr (session_with fresh_token)) = Inr (jsonify 200 (PList []))"
  by (simp add: ride_def bind_err_def has_polyline_def get_activities_handler_def
      session_with_def get_activities_def activity_provider_def wrap_request_error_def)

lemma has_polyline_nonempty:
  "has_polyline act = Inr b \<Longrightarrow> b = nonempty_polyline act"
  by (cases act)
     (auto simp: has_polyline_def nonempty_polyline_def bind_err_def
           split: option.splits pyval.splits sum.splits)

text \<open>
  C4, amended. When the comprehension of \<open>GET /api/activities\<close> returns, its result is
  the projection, in order, of exactly the activities whose \<open>map\<close> object carries a
  \<open>summary_polyline\<close> with a truthy value (for a string: a non-empty one). An activity
  without the key is excluded, and so is one whose polyline is the empty string.
\<close>

theorem filtered_activities_keeps_truthy_polylines:
  "filtered_activities rounding acts = Inr out \<Longrightarrow>
     map (reshape rounding) (filter nonempty_polyline acts) = map Inr out
     \<and> (\<forall>act \<in> set acts. has_polyline act = Inr (nonempty_polyline act))"
proof (induction acts arbitrary: out)
  case Nil
  then show ?case by simp
next
  case (Cons act rest)
  from Cons.prems obtain keep where keep: "has_polyline act = Inr keep"
    by (cases "has_polyline act") (simp_all add: bind_err_def)
  then have k: "keep = nonempty_polyline act" by (rule has_polyline_nonempty)
  show ?case
  proof (cases keep)
    case True
    with Cons.prems keep obtain r rs where
      r: "reshape rounding act = Inr r" and rs: "filtered_activities rounding rest = Inr rs"
      and out: "out = r # rs"
      by (auto simp: bind_err_def split: sum.splits)
    from Cons.IH [OF rs] r out keep k True show ?thesis by simp
  next
    case False
    with Cons.prems keep have rs: "filtered_activities rounding rest = Inr out"
      by (simp add: bind_err_def)
    from Cons.IH [OF rs] keep k False show ?thesis by simp
  qed
qed

theorem filtered_activities_keeps_truthy_polylines_witness:
  "filtered_activities Inr
      [ride 1 [(''summary_polyline'', PStr ''a|b'')], ride 2 [(''summary_polyline'', PStr [])],
       ride 3 []] = Inr [ride_view 1]
   \<and> filter nonempty_polyline
      [ride 1 [(''summary_polyline'', PStr ''a|b'')], ride 2 [(''summary_polyline'', PStr [])],
       ride 3 []] = [ride 1 [(''summary_polyline'', PStr ''a|b'')]]
   \<and> reshape Inr (ride 1 [(''summary_polyline'', PStr ''a|b'')]) = Inr (ride_view 1)"
proof -
  let ?acts = "[ride 1 [(''summary_polyline'', PStr ''a|b'')],
                ride 2 [(''summary_polyline'', PStr [])], ride 3 []]"
  have run: "filtered_activities Inr ?acts = Inr [ride_view 1]"
    by (simp add: ride_def ride_view_def bind_err_def has_polyline_def reshape_def)
  have sel: "filter nonempty_polyline ?acts = [ride 1 [(''summary_polyline'', PStr ''a|b'')]]"
    by (simp add: ride_def nonempty_polyline_def)
  from filtered_activities_keeps_truthy_polylines [OF run]
  show ?thesis using run sel by simp
qed

subsection \<open>Route validation of POST /api/pois\<close>

text \<open>
  C5, as stated, fails for the second variant, which has no length check: an empty route
  is answered 200 with an empty list.
\<close>

theorem backend_accepts_empty_route:
  "backend_get_nearby_pois (\<lambda>route_coords. (Inl ValueError, 0)) (PDict [(''route'', PList [])])
     = (Inr (jsonify 200 (PList [])), 0)
   \<and> status (jsonify 200 (PList [])) \<noteq> 400"
  by (simp add: backend_get_nearby_pois_def backend_get_pois_for_route_def bind_err_def
      jsonify_def)

text \<open>
  C5, amended. In app.py every request whose \<open>route\<close> is a list of fewer than two points
  is rejected with 400 and no search call is issued. In the second variant an empty route
  is answered 200 with an empty list, also without any network call.
\<close>

theorem short_route_rejected:
  assumes "py_getitem data ''route'' = Inr (PList route)" and "length route < 2"
  shows "get_nearby_pois gmaps cfg data
           = (Inr (json_error 400 ''Route must be a list with at least 2 coordinates''), [])
       \<and> (route = [] \<longrightarrow>
            backend_get_nearby_pois pipeline data = (Inr (jsonify 200 (PList [])), 0))"
proof -
  from assms(1) obtain kvs where d: "data = PDict kvs" and r: "map_of kvs ''route'' = Some (PList route)"
    by (cases data) (auto split: option.splits)
  from r have ne: "kvs \<noteq> []" by auto
  from r have mem: "''route'' \<in> set (map fst kvs)"
    by (metis map_of_eq_None_iff option.distinct(1) set_map)
  have a: "get_nearby_pois gmaps cfg data
           = (Inr (json_error 400 ''Route must be a list with at least 2 coordinates''), [])"
    using d r ne mem assms(2) by (simp add: get_nearby_pois_def)
  have b: "backend_get_nearby_pois pipeline data = (Inr (jsonify 200 (PList [])), 0)"
    if "route = []"
    using d r ne mem that
    by (simp add: backend_get_nearby_pois_def backend_get_pois_for_route_def bind_err_def)
  from a b show ?thesis by blast
qed

theorem short_route_rejected_witness:
  "py_getitem (PDict [(''route'', PList [PList [PFloat (PyFloat False 45 ''''), PFloat (PyFloat True 122 '''')]])])
      ''route'' = Inr (PList [PList [PFloat (PyFloat False 45 ''''), PFloat (PyFloat True 122 '''')]])
   \<and> length [PList [PFloat (PyFloat False 45 ''''), PFloat (PyFloat True 122 '''')]] < 2
   \<and> get_nearby_pois (Some overlapping_search) default_config
        (PDict [(''route'', PList [PList [PFloat (PyFloat False 45 ''''), PFloat (PyFloat True 122 '''')]])])
       = (Inr (json_error 400 ''Route must be a list with at least 2 coordinates''), [])
   \<and> py_getitem (PDict [(''route'', PList [])]) ''route'' = Inr (PList [])
   \<and> backend_get_nearby_pois (\<lambda>route_coords. (Inl ValueError, 0)) (PDict [(''route'', PList [])])
       = (Inr (jsonify 200 (PList [])), 0)"
proof -
  let ?one = "[PList [PFloat (PyFloat False 45 ''''), PFloat (PyFloat True 122 '''')]]"
  have h1: "py_getitem (PDict [(''route'', PList ?one)]) ''route'' = Inr (PList ?one)" by simp
  have h2: "length ?one < 2" by simp
  have h3: "py_getitem (PDict [(''route'', PList [])]) ''route'' = Inr (PList [])" by simp
  from short_route_rejected [OF h1 h2, of "Some overlapping_search" default_config
          "\<lambda>route_coords. (Inl ValueError, 0)"]
       short_route_rejected [OF h3, of "Some overlapping_search" default_config
          "\<lambda>route_coords. (Inl ValueError, 0)"]
  show ?thesis by simp
qed

subsection \<open>Coordinate stream: empty versus failed\<close>

text \<open>
  C8. When the provider's answer has no \<open>latlng\<close> stream, \<open>get_activity_stream\<close> returns
  the empty list, not an error; when the fetch fails it raises \<open>StravaAPIError\<close>. The
  handler answers the first with 404 and the second with 500, two different statuses.
\<close>

theorem empty_stream_is_404_fetch_error_is_500:
  assumes "sess ''strava_token'' = Some t"
  shows "(\<forall>body. get_streams net activity_id (access_token t) = Inr (PDict body)
             \<and> map_of body ''latlng'' = None \<longrightarrow>
            get_activity_stream net activity_id (access_token t) = Inr (PList []))
       \<and> (get_streams net activity_id (access_token t) = Inl RequestException \<longrightarrow>
            get_activity_stream net activity_id (access_token t) = Inl StravaAPIError)
       \<and> (get_activity_stream net activity_id (access_token t) = Inr (PList []) \<longrightarrow>
            snd (get_activity_stream_data net activity_id sess)
              = Inr (json_error 404 ''No GPS data found for this activity''))
       \<and> (get_activity_stream net activity_id (access_token t) = Inl StravaAPIError \<longrightarrow>
            snd (get_activity_stream_data net activity_id sess)
              = Inr (json_error 500 ''Failed to fetch activity data''))
       \<and> status (json_error 404 ''No GPS data found for this activity'')
           \<noteq> status (json_error 500 ''Failed to fetch activity data'')"
  using assms
  by (simp add: get_activity_stream_def get_activity_stream_data_def bind_err_def
      wrap_request_error_def json_error_def jsonify_def)

theorem empty_stream_is_404_fetch_error_is_500_witness:
  "session_with fresh_token ''strava_token'' = Some fresh_token
   \<and> get_streams (provider (Inr fresh_token)) 7 (access_token fresh_token) = Inr (PDict [])
   \<and> map_of ([] :: (string \<times> pyval) list) ''latlng'' = None
   \<and> get_activity_stream (provider (Inr fresh_token)) 7 (access_token fresh_token) = Inr (PList [])
   \<and> snd (get_activity_stream_data (provider (Inr fresh_token)) 7 (session_with fresh_token))
       = Inr (json_error 404 ''No GPS data found for this activity'')
   \<and> get_streams (provider (Inr fresh_token)) 8 (access_token fresh_token) = Inl RequestException
   \<and> get_activity_stream (provider (Inr fresh_token)) 8 (access_token fresh_token)
       = Inl StravaAPIError
   \<and> snd (get_activity_stream_data (provider (Inr fresh_token)) 8 (session_with fresh_token))
       = Inr (json_error 500 ''Failed to fetch activity data'')"
proof -
  let ?net = "provider (Inr fresh_token)"
  have h: "session_with fresh_token ''strava_token'' = Some fresh_token"
    by (simp add: session_with_def)
  have g7: "get_streams ?net 7 (access_token fresh_token) = Inr (PDict [])"
    by (simp add: provider_def)
  have g8: "get_streams ?net 8 (access_token fresh_token) = Inl RequestException"
    by (simp add: provider_def)
  from empty_stream_is_404_fetch_error_is_500
         [where sess = "session_with fresh_token" and t = fresh_token and net = ?net
            and activity_id = 7]
       empty_stream_is_404_fetch_error_is_500
         [where sess = "session_with fresh_token" and t = fresh_token and net = ?net
            and activity_id = 8]
  show ?thesis using h g7 g8 by simp
qed

subsection \<open>GPX formatter\<close>

lemma str_float_examples:
  "str_float (PyFloat False 45 '''') = ''45.0''"
  "str_float (PyFloat True 122 '''') = ''-122.0''"
  "str_float (PyFloat False 45 ''1'') = ''45.1''"
  "str_float (PyFloat True 122 ''1'') = ''-122.1''"
  by (simp_all add: str_float_def digit_char_def)

lemma example_run: "create_gpx_string str_float ''Activity 123'' example_coords = Inr example_gpx"
  by (simp add: create_gpx_string_def example_coords_def bind_err_def trkpt_def
      str_float_examples gpx_head_def gpx_tail_def example_gpx_def)

lemma example_counts:
  "count_occurrences ''<trkpt '' example_gpx = 2"
  "count_occurrences ''<trk>'' example_gpx = 1"
  "count_occurrences ''<trkseg>'' example_gpx = 1"
  by (simp_all add: example_gpx_def)

lemma gpx_points_loop_concat:
  "\<forall>c \<in> set coords. length c = 2 \<Longrightarrow>
     gpx_points_loop fmt acc coords
       = Inr (acc @ concat (map (\<lambda>c. trkpt fmt (c ! 0) (c ! 1)) coords))"
proof (induction coords arbitrary: acc)
  case Nil
  show ?case by simp
next
  case (Cons c rest)
  then have "length c = 2" by simp
  then obtain lat lng where c: "c = [lat, lng]"
    by (cases c; cases "tl c") auto
  with Cons show ?case by simp
qed

text \<open>
  C9. \<open>create_gpx_string("Activity 123", [[45.0, -122.0], [45.1, -122.1]])\<close> is the
  expected GPX 1.1 document: one \<open>trk\<close>, one \<open>trkseg\<close> and exactly two \<open>trkpt\<close>
  elements, with the attributes of the two coordinates in input order. In general, for
  coordinates of two components each, the document is the head, one \<open>trkpt\<close> line per
  coordinate in input order, and the tail.
\<close>

theorem create_gpx_string_one_trkpt_per_coordinate:
  "create_gpx_string str_float ''Activity 123'' example_coords = Inr example_gpx
   \<and> count_occurrences ''<trkpt '' example_gpx = 2
   \<and> count_occurrences ''<trk>'' example_gpx = 1
   \<and> count_occurrences ''<trkseg>'' example_gpx = 1
   \<and> ((\<forall>c \<in> set coords. length c = 2) \<longrightarrow>
        create_gpx_string fmt activity_name coords
          = Inr (gpx_head activity_name
                 @ concat (map (\<lambda>c. trkpt fmt (c ! 0) (c ! 1)) coords)
                 @ gpx_tail))"
  using example_run example_counts
  by (simp add: create_gpx_string_def bind_err_def gpx_points_loop_concat)

theorem create_gpx_string_one_trkpt_per_coordinate_witness:
  "map length example_coords = [2, 2]
   \<and> create_gpx_string str_float ''Activity 123'' example_coords
       = Inr (gpx_head ''Activity 123''
              @ trkpt str_float (PyFloat False 45 []) (PyFloat True 122 [])
              @ trkpt str_float (PyFloat False 45 ''1'') (PyFloat True 122 ''1'')
              @ gpx_tail)"
proof -
  have h: "\<forall>c \<in> set example_coords. length c = 2" by (simp add: example_coords_def)
  from create_gpx_string_one_trkpt_per_coordinate
         [where coords = example_coords and fmt = str_float and activity_name = "''Activity 123''"]
  have "create_gpx_string str_float ''Activity 123'' example_coords
          = Inr (gpx_head ''Activity 123''
                 @ concat (map (\<lambda>c. trkpt str_float (c ! 0) (c ! 1)) example_coords)
                 @ gpx_tail)"
    using h by blast
  then show ?thesis by (simp add: example_coords_def)
qed

end
